theory Spec2Isabelle
  imports Main "HOL-Library.Word"
begin

unbundle bit_operations_syntax

section \<open>Common JavaScript notions\<close>

type_synonym byte = "8 word"

text \<open>
  Exceptions the modelled code can raise: a \<open>TypeError\<close> (reading a property of
  \<open>undefined\<close>, converting a BigInt to a number), a \<open>RangeError\<close> (a typed array
  over a buffer of the wrong size) and an \<open>Error\<close> thrown by the code itself with
  its message.
\<close>

datatype js_error = TypeError | RangeError | Error string

text \<open>
  The result of running a method on a mutable object: it returns, or it throws, and in
  both cases the object is left in the state reached so far.
\<close>

datatype 's outcome = Returned 's | Threw js_error 's

fun and_then :: "'s outcome \<Rightarrow> ('s \<Rightarrow> 's outcome) \<Rightarrow> 's outcome" where
  "and_then (Returned s) f = f s"
| "and_then (Threw e s) f = Threw e s"

fun final_state :: "'s outcome \<Rightarrow> 's" where
  "final_state (Returned s) = s"
| "final_state (Threw e s) = s"

fun thrown :: "'s outcome \<Rightarrow> js_error option" where
  "thrown (Returned s) = None"
| "thrown (Threw e s) = Some e"

text \<open>
  Typed-array views read multi-byte integers in the byte order of the machine; the
  order is a parameter of the decoder.
\<close>

datatype endianness = LittleEndian | BigEndian

fun le_uint :: "byte list \<Rightarrow> nat" where
  "le_uint [] = 0"
| "le_uint (b # bs) = unat b + 256 * le_uint bs"

definition be_uint :: "byte list \<Rightarrow> nat" where
  "be_uint bs = le_uint (rev bs)"

fun native_uint :: "endianness \<Rightarrow> byte list \<Rightarrow> nat" where
  "native_uint LittleEndian bs = le_uint bs"
| "native_uint BigEndian bs = be_uint bs"

text \<open>\<open>buf.slice(a, b)\<close> and \<open>buf.slice(a)\<close> for non-negative indices.\<close>

definition slice :: "nat \<Rightarrow> nat \<Rightarrow> 'a list \<Rightarrow> 'a list" where
  "slice a b xs = take (b - a) (drop a xs)"

text \<open>
  \<open>buf[i] & mask\<close>: an index past the end reads \<open>undefined\<close>, which the bitwise
  operator coerces to 0.
\<close>

definition byteAnd :: "byte list \<Rightarrow> nat \<Rightarrow> byte \<Rightarrow> nat" where
  "byteAnd buf i m = (if i < length buf then unat ((buf ! i) AND m) else 0)"

section \<open>WsH2Stream: frames (src/streams/ws-h2stream.mjs)\<close>

subsection \<open>Constants\<close>

definition CONTINUATION :: nat where "CONTINUATION = 0"
definition TEXT :: nat where "TEXT = 1"
definition BINARY :: nat where "BINARY = 2"
definition CLOSE :: nat where "CLOSE = 8"
definition PING :: nat where "PING = 9"
definition PONG :: nat where "PONG = 10"
definition FINAL :: nat where "FINAL = 128"

text \<open>
  The opcode table lives in the private static \<open>#WS_CONSTANTS.OPCODES\<close>. The class
  declares no static member called \<open>OPCODES\<close> (its only public statics are the
  \<open>acceptedProtocols\<close> accessors) and no other file of the repository assigns one, so
  the expression \<open>WsH2Stream.OPCODES\<close> evaluates to \<open>undefined\<close>.
\<close>

definition WsH2Stream_OPCODES :: "(string \<Rightarrow> nat) option" where
  "WsH2Stream_OPCODES = None"

subsection \<open>Parsed fragments\<close>

text \<open>
  The value stored in \<open>payloadLength\<close>: a number, a BigInt (the 64-bit case), or
  \<open>undefined\<close> when the typed array it is read from is empty.
\<close>

datatype js_length = Num nat | BigInt nat | Undefined

record fragmentDetails =
  isFinal :: nat
  rsv1 :: nat
  rsv2 :: nat
  rsv3 :: nat
  opcode :: nat
  payloadLength :: js_length
  maskingKey :: "byte list option"
  usesMasking :: bool
  payload :: "byte list"

text \<open>
  The \<open>switch (payloadLength)\<close> of \<open>#fragmentInterpreter\<close>: the decoded length and
  the offset after the length field.
  \<^item> 126: \<open>new Uint16Array(new Uint8Array(fastFragment.slice(2, 4)))[0]\<close>. A typed array
    built from another typed array copies it element by element, so the result has one
    16-bit element per byte and element 0 is the byte at index 2.
  \<^item> 127: \<open>new BigUint64Array(new Uint8Array(fastFragment.slice(2, 10)).buffer)[0]\<close>. The
    view is over the copied bytes: it raises a RangeError unless their number is a
    multiple of 8, and reads them in the machine's byte order.
\<close>

definition decodeLength :: "endianness \<Rightarrow> byte list \<Rightarrow> nat \<Rightarrow> js_error + (js_length \<times> nat)" where
  "decodeLength plat fastFragment payloadLength7 =
     (if payloadLength7 = 126 then
        Inr (case slice 2 4 fastFragment of [] \<Rightarrow> Undefined | b # bs \<Rightarrow> Num (unat b), 2 + 2)
      else if payloadLength7 = 127 then
        (let bytes = slice 2 10 fastFragment in
         if length bytes mod 8 \<noteq> 0 then Inl RangeError
         else Inr (case bytes of [] \<Rightarrow> Undefined | b # bs \<Rightarrow> BigInt (native_uint plat bytes), 2 + 8))
      else Inr (Num payloadLength7, 2))"

text \<open>\<open>#fragmentInterpreter\<close>: \<open>None\<close> is the \<open>undefined\<close> returned for an empty chunk.\<close>

definition fragmentInterpreter :: "endianness \<Rightarrow> byte list \<Rightarrow> js_error + fragmentDetails option" where
  "fragmentInterpreter plat fastFragment =
     (if length fastFragment = 0 then Inr None
      else
        (case decodeLength plat fastFragment (byteAnd fastFragment 1 0x7F) of
           Inl e \<Rightarrow> Inl e
         | Inr (len, currentOffset) \<Rightarrow>
             (let masked = byteAnd fastFragment 1 0x80 \<noteq> 0 in
              Inr (Some \<lparr>
                isFinal = byteAnd fastFragment 0 0x80,
                rsv1 = byteAnd fastFragment 0 0x40,
                rsv2 = byteAnd fastFragment 0 0x20,
                rsv3 = byteAnd fastFragment 0 0x10,
                opcode = byteAnd fastFragment 0 0x0F,
                payloadLength = len,
                maskingKey = (if masked then Some (slice currentOffset (currentOffset + 4) fastFragment) else None),
                usesMasking = masked,
                payload = drop (if masked then currentOffset + 4 else currentOffset) fastFragment
              \<rparr>))))"

subsection \<open>The channel\<close>

datatype frame_type = TextFrame | BinaryFrame | UnknownFrame

text \<open>
  The events a channel emits. A text message's payload is the string decoded from the
  bytes as UTF-8; the model keeps the bytes and the frame type tells how they are read.
\<close>

datatype ws_event = FrameEvent nat frame_type "byte list" | PongEvent "byte list"

text \<open>
  The state of one \<open>WsH2Stream\<close>: the fragment accumulator (an element is \<open>None\<close> when
  \<open>undefined\<close> was pushed), the buffers written to the underlying stream, the number of
  \<open>end()\<close> calls on it, the events emitted, and the logger (\<open>None\<close> when the
  constructor's options carry no logger, otherwise the lines logged so far).
\<close>

record ws_channel =
  currentFrameFragments :: "fragmentDetails option list"
  written :: "byte list list"
  streamEnds :: nat
  emitted :: "ws_event list"
  logger :: "string list option"

definition log_line :: "string \<Rightarrow> ws_channel \<Rightarrow> ws_channel outcome" where
  "log_line msg c =
     (case logger c of
        None \<Rightarrow> Threw TypeError c
      | Some ls \<Rightarrow> Returned (c\<lparr>logger := Some (ls @ [msg])\<rparr>))"

definition stream_write :: "byte list \<Rightarrow> ws_channel \<Rightarrow> ws_channel" where
  "stream_write buf c = c\<lparr>written := written c @ [buf]\<rparr>"

definition stream_end :: "ws_channel \<Rightarrow> ws_channel" where
  "stream_end c = c\<lparr>streamEnds := Suc (streamEnds c)\<rparr>"

definition emit :: "ws_event \<Rightarrow> ws_channel \<Rightarrow> ws_channel" where
  "emit ev c = c\<lparr>emitted := emitted c @ [ev]\<rparr>"

text \<open>
  A control frame of \<open>#sendFrame\<close>: the first byte is
  \<open>FIRST_BYTE.FINAL | WsH2Stream.OPCODES.PONG\<close> (or \<open>CLOSE\<close>, \<open>PING\<close>), evaluated
  before the write.
\<close>

definition sendControl :: "string \<Rightarrow> ws_channel \<Rightarrow> ws_channel outcome" where
  "sendControl name c =
     (case WsH2Stream_OPCODES of
        None \<Rightarrow> Threw TypeError c
      | Some opcodes \<Rightarrow> Returned (stream_write [of_nat (FINAL OR opcodes name), 0] c))"

text \<open>
  The length bytes of a data frame. \<open>[126, ...new Uint16Array([n])]\<close> spreads a typed
  array of one element, and \<open>Buffer.from\<close> keeps the low 8 bits of each element. In the
  64-bit case the spread element is a BigInt, which \<open>Buffer.from\<close> cannot convert.
\<close>

definition payloadLengthBytes :: "nat \<Rightarrow> js_error + byte list" where
  "payloadLengthBytes n =
     (if n < 126 then Inr [of_nat n]
      else if n < 65536 then Inr [126, of_nat (n mod 65536)]
      else Inl TypeError)"

text \<open>\<open>#sendFrame(options)\<close>, with \<open>options.opcode\<close> and \<open>options.payload\<close>.\<close>

definition sendFrame :: "nat \<Rightarrow> byte list \<Rightarrow> ws_channel \<Rightarrow> ws_channel outcome" where
  "sendFrame opc pl c =
     (if opc = CLOSE then sendControl ''CLOSE'' c
      else if opc = PING then sendControl ''PING'' c
      else if opc = PONG then sendControl ''PONG'' c
      else if opc = TEXT \<or> opc = BINARY then
        (case payloadLengthBytes (length pl) of
           Inl e \<Rightarrow> Threw e c
         | Inr lengthBytes \<Rightarrow> Returned (stream_write ([of_nat (FINAL OR opc)] @ lengthBytes @ pl) c))
      else Returned c)"

definition ping :: "ws_channel \<Rightarrow> ws_channel outcome" where
  "ping c = sendFrame PONG [] c"

definition pong :: "ws_channel \<Rightarrow> ws_channel outcome" where
  "pong c = sendFrame PONG [] c"

definition sendText :: "byte list \<Rightarrow> ws_channel \<Rightarrow> ws_channel outcome" where
  "sendText data c = sendFrame TEXT data c"

text \<open>
  Unmasking, \<open>payload.map((byte, index) => byte ^ maskingKey[index % 4])\<close>: a key shorter
  than 4 bytes reads \<open>undefined\<close> past its end, which leaves the byte as it is.
\<close>

definition keyAt :: "byte list \<Rightarrow> nat \<Rightarrow> byte" where
  "keyAt k i = (if i mod 4 < length k then k ! (i mod 4) else 0)"

definition unmask :: "byte list \<Rightarrow> byte list \<Rightarrow> byte list" where
  "unmask k pl = map (\<lambda>i. (pl ! i) XOR keyAt k i) [0..<length pl]"

definition fragmentPayload :: "fragmentDetails option \<Rightarrow> byte list option" where
  "fragmentPayload fo =
     (case fo of
        None \<Rightarrow> None
      | Some f \<Rightarrow>
          if usesMasking f then
            (case maskingKey f of
               Some k \<Rightarrow> Some (unmask k (payload f))
             | None \<Rightarrow> if payload f = [] then Some [] else None)
          else Some (payload f))"

fun concatTypedArrays :: "byte list option list \<Rightarrow> byte list option" where
  "concatTypedArrays [] = Some []"
| "concatTypedArrays (None # rest) = None"
| "concatTypedArrays (Some a # rest) = map_option (\<lambda>r. a @ r) (concatTypedArrays rest)"

definition frameType :: "nat \<Rightarrow> frame_type" where
  "frameType opc = (if opc = TEXT then TextFrame else if opc = BINARY then BinaryFrame else UnknownFrame)"

text \<open>The switch of \<open>#parseFrame\<close> on a final control fragment.\<close>

definition controlAction :: "fragmentDetails \<Rightarrow> ws_channel \<Rightarrow> ws_channel outcome" where
  "controlAction lastFragment c =
     (if opcode lastFragment = CLOSE then
        and_then (log_line ''Close frame received.'' c) (\<lambda>c. Returned (stream_end c))
      else if opcode lastFragment = PING then
        and_then (log_line ''Ping received.'' c) pong
      else if opcode lastFragment = PONG then
        and_then (log_line ''Pong received.'' c) (\<lambda>c. Returned (emit (PongEvent (payload lastFragment)) c))
      else
        and_then (log_line ''Unknown opcode'' c) (\<lambda>c. Returned (stream_end c)))"

text \<open>The rest of \<open>#parseFrame\<close>: the last fragment is final and carries a data opcode.\<close>

definition completeFrame :: "ws_channel \<Rightarrow> ws_channel outcome" where
  "completeFrame c =
     (case currentFrameFragments c of
        [] \<Rightarrow> Threw TypeError c
      | None # rest \<Rightarrow> Threw TypeError c
      | Some first # rest \<Rightarrow>
          (case concatTypedArrays (map fragmentPayload (currentFrameFragments c)) of
             None \<Rightarrow> Threw TypeError c
           | Some bytes \<Rightarrow>
               and_then (log_line ''Frame received'' c)
                 (\<lambda>c. Returned ((emit (FrameEvent (opcode first) (frameType (opcode first)) bytes) c)
                                   \<lparr>currentFrameFragments := []\<rparr>))))"

definition parseFrame :: "ws_channel \<Rightarrow> ws_channel outcome" where
  "parseFrame c =
     (if currentFrameFragments c = [] then Threw TypeError c
      else
        (case last (currentFrameFragments c) of
           None \<Rightarrow> Threw TypeError c
         | Some lastFragment \<Rightarrow>
             if isFinal lastFragment = 0 then Returned c
             else if opcode lastFragment \<ge> 8 then
               and_then (controlAction lastFragment c)
                 (\<lambda>c. Returned (c\<lparr>currentFrameFragments := butlast (currentFrameFragments c)\<rparr>))
             else completeFrame c))"

text \<open>\<open>#dataListener\<close>: decode the chunk, push the result, parse.\<close>

definition dataListener :: "endianness \<Rightarrow> byte list \<Rightarrow> ws_channel \<Rightarrow> ws_channel outcome" where
  "dataListener plat fragment c =
     (case fragmentInterpreter plat fragment of
        Inl e \<Rightarrow> Threw e c
      | Inr parsedFragment \<Rightarrow>
          parseFrame (c\<lparr>currentFrameFragments := currentFrameFragments c @ [parsedFragment]\<rparr>))"

subsection \<open>Subprotocol negotiation\<close>


text \<open>\<open>s.split(",")\<close>: the empty string splits into one empty field.\<close>

fun split_on :: "char \<Rightarrow> string \<Rightarrow> string list" where
  "split_on sep [] = [[]]"
| "split_on sep (x # xs) =
     (if x = sep then [] # split_on sep xs
      else (case split_on sep xs of [] \<Rightarrow> [[x]] | w # ws \<Rightarrow> (x # w) # ws))"

text \<open>\<open>fields.join(",")\<close>.\<close>

fun join :: "string \<Rightarrow> string list \<Rightarrow> string" where
  "join sep [] = []"
| "join sep [w] = w"
| "join sep (w # v # ws) = w @ sep @ join sep (v # ws)"




section \<open>H2Stream (src/streams/h2stream.mjs)\<close>

type_synonym headers = "(string \<times> string) list"

text \<open>The calls made on the wrapped HTTP/2 stream.\<close>

datatype stream_call = Respond headers bool | End | Write "byte list"

record responseOptions =
  waitForTrailers :: bool
  endStream :: bool

text \<open>
  The private fields of an \<open>H2Stream\<close>. \<open>h2logger\<close> is \<open>None\<close> when the logger is
  \<open>undefined\<close>, otherwise the lines logged so far.
\<close>

record h2stream =
  sentHeaders :: "headers option"
  closed :: bool
  errorProtocol :: string
  h2logger :: "string list option"
  streamCalls :: "stream_call list"

text \<open>
  The constructor, \<open>this.#logger = options.logger\<close>: the argument is \<open>None\<close> when the
  options carry no logger (the parameter defaults to \<open>{}\<close>), which replaces the field's
  initial value \<open>console\<close> by \<open>undefined\<close>.
\<close>

definition new_H2Stream :: "string list option \<Rightarrow> h2stream" where
  "new_H2Stream options_logger =
     \<lparr>sentHeaders = None, closed = False, errorProtocol = ''logger'',
      h2logger = options_logger, streamCalls = []\<rparr>"

definition h2_end :: "h2stream \<Rightarrow> h2stream" where
  "h2_end s = s\<lparr>closed := True, streamCalls := streamCalls s @ [End]\<rparr>"

definition respond :: "headers \<Rightarrow> responseOptions option \<Rightarrow> h2stream \<Rightarrow> h2stream outcome" where
  "respond hs ro s =
     (if sentHeaders s \<noteq> None then
        (if errorProtocol s = ''throw'' then Threw (Error ''Headers already sent.'') s
         else
           (case h2logger s of
              None \<Rightarrow> Threw TypeError s
            | Some ls \<Rightarrow> Returned (s\<lparr>h2logger := Some (ls @ [''Headers already sent.''])\<rparr>)))
      else
        (let s1 = s\<lparr>sentHeaders := Some hs\<rparr>;
             s2 = s1\<lparr>streamCalls := streamCalls s1 @
                    [Respond hs (case ro of None \<Rightarrow> False | Some opts \<Rightarrow> waitForTrailers opts)]\<rparr>
         in if (case ro of None \<Rightarrow> False | Some opts \<Rightarrow> endStream opts)
            then Returned (h2_end s2) else Returned s2))"

definition sendData :: "byte list \<Rightarrow> h2stream \<Rightarrow> h2stream outcome" where
  "sendData data s =
     (if sentHeaders s = None then Threw (Error ''Must respond before sending data'') s
      else Returned (s\<lparr>streamCalls := streamCalls s @ [Write data]\<rparr>))"

section \<open>Mesh (src/mesh.mjs, the class with the connection registry)\<close>

definition localhostVariants :: "string list" where
  "localhostVariants = [''localhost'', ''127.0.0.1'', ''::1'']"

text \<open>
  What the handlers read from a transport session: the property keys that \<open>session.id\<close>
  (used by \<open>#meshSessionHandler\<close>) and \<open>session.sessionId\<close> (used by
  \<open>#meshStreamHandler\<close> and \<open>#processMeshStreamData\<close>) convert to, and
  \<open>session.socket.remoteAddress\<close>.
\<close>

record h2session =
  session_id :: string
  session_sessionId :: string
  remoteAddress :: "string option"

record mesh_stream =
  stream_id :: nat
  stream_session :: h2session

record session_record =
  sr_session :: h2session
  streams :: "nat \<rightharpoonup> mesh_stream"

record mesh_response =
  mesh_status :: nat
  mesh_endStream :: bool

text \<open>
  The state of the coordinating process: its own address, the two indexes of
  \<open>#knownServerConnections\<close>, the streams \<open>#processMeshStreamData\<close> attached its
  listeners to (with the peer key and the direction), the responses sent on inbound
  streams, the outbound requests opened, the data written on outbound streams and the
  calls of \<open>#unRegisterServerFn\<close>.
\<close>

record mesh =
  meshIp :: string
  meshPort :: nat
  bySession :: "string \<rightharpoonup> session_record"
  byIPAndPort :: "string \<rightharpoonup> mesh_stream"
  processed :: "(mesh_stream \<times> string \<times> bool) list"
  responses :: "(mesh_stream \<times> mesh_response) list"
  requests :: "(string \<times> headers) list"
  stream_writes :: "(mesh_stream \<times> string) list"
  unregisterCalls :: "string list"

text \<open>A port number inside a template string: its decimal digits.\<close>

fun decimal :: "nat \<Rightarrow> string" where
  "decimal n =
     (if n < 10 then [''0123456789'' ! n]
      else decimal (n div 10) @ [''0123456789'' ! (n mod 10)])"

declare decimal.simps [simp del]

definition startsWith :: "string \<Rightarrow> string \<Rightarrow> bool" where
  "startsWith str pre = (take (length pre) str = pre)"

text \<open>
  What the constructor reads of its configuration: whether the two required functions
  are defined, and the port and the ip (\<open>None\<close> when \<open>undefined\<close>).
\<close>

record mesh_config =
  config_registerServerFn :: bool
  config_getOtherMeshServesFn :: bool
  config_port :: "nat option"
  config_ip :: "string option"

text \<open>
  The fields of a new instance once the constructor has assigned the port. It never
  assigns \<open>#meshIp\<close>, which keeps its initial value \<open>"localhost"\<close>.
\<close>

definition initial_mesh :: "nat \<Rightarrow> mesh" where
  "initial_mesh p =
     \<lparr>meshIp = ''localhost'', meshPort = p, bySession = Map.empty, byIPAndPort = Map.empty,
      processed = [], responses = [], requests = [], stream_writes = [], unregisterCalls = []\<rparr>"

text \<open>
  The constructor: it throws when a required function is missing, when the port or the
  ip is missing, or when the ip is not in a local range; \<open>config.port || 8080\<close> replaces
  the port 0.
\<close>

definition new_Mesh :: "mesh_config \<Rightarrow> js_error + mesh" where
  "new_Mesh config =
     (if \<not> config_registerServerFn config then Inl (Error ''registerServerFn is required'')
      else if \<not> config_getOtherMeshServesFn config then
        Inl (Error ''getOtherMeshServesFn is required'')
      else
        (case (config_port config, config_ip config) of
           (Some p, Some i) \<Rightarrow>
             if \<not> (startsWith i ''10.'' \<or> startsWith i ''192.168.'' \<or> startsWith i ''172.''
                   \<or> startsWith i ''127.'' \<or> i = ''localhost'')
             then Inl (Error ''Port and ip are required and ip must be a local sub network. DO NOT RUN THIS ON A PUBLIC NETWORK!!!'')
             else Inr (initial_mesh (if p = 0 then 8080 else p))
         | _ \<Rightarrow> Inl (Error ''Port and ip are required and ip must be a local sub network. DO NOT RUN THIS ON A PUBLIC NETWORK!!!'')))"

definition meshSessionHandler :: "h2session \<Rightarrow> mesh \<Rightarrow> mesh" where
  "meshSessionHandler session s =
     s\<lparr>bySession := (bySession s)(session_id session \<mapsto> \<lparr>sr_session = session, streams = Map.empty\<rparr>)\<rparr>"

definition stream_respond :: "mesh_stream \<Rightarrow> nat \<Rightarrow> bool \<Rightarrow> mesh \<Rightarrow> mesh" where
  "stream_respond stream code ends s =
     s\<lparr>responses := responses s @ [(stream, \<lparr>mesh_status = code, mesh_endStream = ends\<rparr>)]\<rparr>"

text \<open>\<open>#processMeshStreamData\<close> attaches the close, data and end listeners of a link.\<close>

definition processMeshStreamData :: "mesh_stream \<Rightarrow> string \<Rightarrow> bool \<Rightarrow> mesh \<Rightarrow> mesh" where
  "processMeshStreamData stream remoteIpAndPort isOut s =
     s\<lparr>processed := processed s @ [(stream, remoteIpAndPort, isOut)]\<rparr>"

text \<open>The close listener attached by \<open>#processMeshStreamData\<close>.\<close>

definition streamCloseListener :: "mesh_stream \<Rightarrow> string \<Rightarrow> mesh \<Rightarrow> mesh" where
  "streamCloseListener stream remoteIpAndPort s =
     (let sessionId = session_sessionId (stream_session stream);
          s1 = (case bySession s sessionId of
                  None \<Rightarrow> s
                | Some r \<Rightarrow> s\<lparr>bySession := (bySession s)(sessionId \<mapsto>
                                 r\<lparr>streams := (streams r)(stream_id stream := None)\<rparr>)\<rparr>)
      in s1\<lparr>byIPAndPort := (byIPAndPort s1)(remoteIpAndPort := None)\<rparr>)"

text \<open>The identity check of \<open>#meshStreamHandler\<close>: true when the handshake is refused.\<close>

definition invalidRemoteIp :: "string \<Rightarrow> string option \<Rightarrow> bool" where
  "invalidRemoteIp remoteIpHeader remoteSocketAddress =
     (Some remoteIpHeader \<noteq> remoteSocketAddress \<and>
      \<not> (remoteIpHeader \<in> set localhostVariants \<and>
         (case remoteSocketAddress of None \<Rightarrow> False | Some a \<Rightarrow> a \<in> set localhostVariants)))"

text \<open>
  \<open>#meshStreamHandler(stream, headers)\<close>, with the values of the \<open>mesh-ip\<close> and
  \<open>mesh-port\<close> headers (\<open>None\<close> when a header is missing).
\<close>

definition meshStreamHandler :: "mesh_stream \<Rightarrow> string option \<Rightarrow> string option \<Rightarrow> mesh \<Rightarrow> mesh outcome" where
  "meshStreamHandler stream remoteIpHeader remotePortHeader s =
     (case (remoteIpHeader, remotePortHeader) of
        (Some ip, Some port) \<Rightarrow>
          if invalidRemoteIp ip (remoteAddress (stream_session stream)) then
            Returned (stream_respond stream 400 True s)
          else
            (let remoteIpAndPort = ip @ '':'' @ port in
             if byIPAndPort s remoteIpAndPort \<noteq> None then
               Returned (stream_respond stream 404 True s)
             else
               (let sessionId = session_sessionId (stream_session stream) in
                case bySession s sessionId of
                  None \<Rightarrow> Threw TypeError s
                | Some r \<Rightarrow>
                    (let s1 = s\<lparr>bySession := (bySession s)(sessionId \<mapsto>
                                   r\<lparr>streams := (streams r)(stream_id stream \<mapsto> stream)\<rparr>)\<rparr>;
                         s2 = s1\<lparr>byIPAndPort := (byIPAndPort s1)(remoteIpAndPort \<mapsto> stream)\<rparr>;
                         s3 = processMeshStreamData stream remoteIpAndPort False s2
                     in Returned (stream_respond stream 200 False s3))))
      | _ \<Rightarrow> Returned (stream_respond stream 400 True s))"

text \<open>
  The body of the loop of \<open>#connectToMeshServers\<close>, over the servers left by the filter.
  Two parameters stand for the environment: \<open>connect server\<close> is the error that
  \<open>http2.connect\<close> or \<open>session.request\<close> throws for that server (\<open>None\<close> when both
  return), and \<open>unRegisterServerFn server\<close> is the error the unregistration fails with
  (\<open>None\<close> when its promise resolves). Inside the \<open>try\<close> one request is opened with the
  headers that declare this process's address; the \<open>catch\<close> awaits the unregistration of
  the server, whose failure ends the loop.
\<close>

fun connectEach ::
  "(string \<Rightarrow> js_error option) \<Rightarrow> (string \<Rightarrow> js_error option) \<Rightarrow> string list \<Rightarrow> mesh \<Rightarrow> mesh outcome" where
  "connectEach connect unRegisterServerFn [] s = Returned s"
| "connectEach connect unRegisterServerFn (serverIpAndPort1 # rest) s =
     (case connect serverIpAndPort1 of
        None \<Rightarrow>
          connectEach connect unRegisterServerFn rest
            (s\<lparr>requests := requests s @
               [(serverIpAndPort1,
                 [(''mesh-ip'', meshIp s), (''mesh-port'', decimal (meshPort s)), ('':method'', ''POST'')])]\<rparr>)
      | Some e \<Rightarrow>
          (let s1 = s\<lparr>unregisterCalls := unregisterCalls s @ [serverIpAndPort1]\<rparr> in
           case unRegisterServerFn serverIpAndPort1 of
             None \<Rightarrow> connectEach connect unRegisterServerFn rest s1
           | Some e' \<Rightarrow> Threw e' s1))"

text \<open>\<open>#connectToMeshServers\<close>: the loop over the listed servers other than this one.\<close>

definition connectToMeshServers ::
  "(string \<Rightarrow> js_error option) \<Rightarrow> (string \<Rightarrow> js_error option) \<Rightarrow> string list \<Rightarrow> mesh \<Rightarrow> mesh outcome" where
  "connectToMeshServers connect unRegisterServerFn otherMeshServers s =
     connectEach connect unRegisterServerFn
       (filter (\<lambda>serverIpAndPort. serverIpAndPort \<noteq> meshIp s @ '':'' @ decimal (meshPort s))
          otherMeshServers) s"

text \<open>The listener of an outbound session's \<open>error\<close> event.\<close>

definition sessionErrorListener :: "string \<Rightarrow> mesh \<Rightarrow> mesh" where
  "sessionErrorListener serverIpAndPort1 s =
     s\<lparr>unregisterCalls := unregisterCalls s @ [serverIpAndPort1]\<rparr>"

text \<open>The listener of an outbound stream's \<open>response\<close> event.\<close>

definition outboundResponseListener :: "mesh_stream \<Rightarrow> string \<Rightarrow> mesh \<Rightarrow> mesh" where
  "outboundResponseListener outboundStream serverIpAndPort s =
     (let s1 = processMeshStreamData outboundStream serverIpAndPort True s
      in s1\<lparr>stream_writes := stream_writes s1 @ [(outboundStream, ''ping'')]\<rparr>)"

subsection \<open>Start-up of the coordinating process\<close>

text \<open>
  The promise returned by a call of \<open>#registerServerFn\<close>, as start-up sees it: the
  arguments of the call, the state of the promise, and the exit code that the callback
  attached with \<open>catch\<close> passes to \<open>process.exit\<close> (\<open>None\<close> when no callback is
  attached).
\<close>

datatype promise_state = Pending | Fulfilled | Rejected

record registration =
  reg_ip :: string
  reg_port :: nat
  reg_state :: promise_state
  reg_catch :: "nat option"

text \<open>
  What start-up reads and changes: whether \<open>#meshListeningHandler\<close> is attached to the
  server's \<open>listening\<close> event, whether \<open>listen\<close> was called, whether the listener is
  bound (the server emits \<open>listening\<close> when it is), the calls of \<open>#registerServerFn\<close>
  made so far, and the exit code once \<open>process.exit\<close> was called.
\<close>

record coordinator =
  listeningAttached :: bool
  listenCalled :: bool
  bound :: bool
  registrations :: "registration list"
  exitCode :: "nat option"

definition coordinator_init :: coordinator where
  "coordinator_init =
     \<lparr>listeningAttached = False, listenCalled = False, bound = False,
      registrations = [], exitCode = None\<rparr>"

text \<open>\<open>#startMeshServer\<close>: attach the handlers, then \<open>listen\<close>.\<close>

definition startMeshServer :: "coordinator \<Rightarrow> coordinator" where
  "startMeshServer c = c\<lparr>listeningAttached := True, listenCalled := True\<rparr>"

text \<open>
  \<open>#meshListeningHandler\<close>, the only call of \<open>#registerServerFn\<close> in the class: the
  call, and on its promise the \<open>catch\<close> callback that logs and calls
  \<open>process.exit(1)\<close>.
\<close>

definition meshListeningHandler :: "string \<Rightarrow> nat \<Rightarrow> coordinator \<Rightarrow> coordinator" where
  "meshListeningHandler ip port c =
     c\<lparr>registrations := registrations c @
          [\<lparr>reg_ip = ip, reg_port = port, reg_state = Pending, reg_catch = Some 1\<rparr>]\<rparr>"

text \<open>
  The registry settles the promise of the call number \<open>i\<close>. A rejection runs the
  callback attached with \<open>catch\<close>, if there is one.
\<close>

definition resolveRegistration :: "nat \<Rightarrow> coordinator \<Rightarrow> coordinator" where
  "resolveRegistration i c =
     c\<lparr>registrations := (registrations c)[i := (registrations c ! i)\<lparr>reg_state := Fulfilled\<rparr>]\<rparr>"

definition rejectRegistration :: "nat \<Rightarrow> coordinator \<Rightarrow> coordinator" where
  "rejectRegistration i c =
     (let r = registrations c ! i;
          c1 = c\<lparr>registrations := (registrations c)[i := r\<lparr>reg_state := Rejected\<rparr>]\<rparr>
      in case reg_catch r of
           None \<Rightarrow> c1
         | Some code \<Rightarrow> c1\<lparr>exitCode := Some code\<rparr>)"

text \<open>
  The server emits \<open>listening\<close> when the socket is bound; the attached handler runs at
  once.
\<close>

definition emitListening :: "string \<Rightarrow> nat \<Rightarrow> coordinator \<Rightarrow> coordinator" where
  "emitListening ip port c =
     (let c1 = c\<lparr>bound := True\<rparr>
      in if listeningAttached c1 then meshListeningHandler ip port c1 else c1)"

text \<open>
  The executions of start-up on the primary: \<open>start()\<close> runs \<open>#startMeshServer\<close>; then
  the environment binds the listener, and settles a pending registration promise either
  way. Nothing runs after \<open>process.exit\<close>.
\<close>

inductive startup :: "string \<Rightarrow> nat \<Rightarrow> coordinator \<Rightarrow> bool" for ip port where
  startup_init: "startup ip port coordinator_init"
| startup_start: "startup ip port c \<Longrightarrow> exitCode c = None \<Longrightarrow> \<not> listenCalled c \<Longrightarrow>
     startup ip port (startMeshServer c)"
| startup_bound: "startup ip port c \<Longrightarrow> exitCode c = None \<Longrightarrow> listenCalled c \<Longrightarrow> \<not> bound c \<Longrightarrow>
     startup ip port (emitListening ip port c)"
| startup_resolved: "startup ip port c \<Longrightarrow> exitCode c = None \<Longrightarrow> i < length (registrations c) \<Longrightarrow>
     reg_state (registrations c ! i) = Pending \<Longrightarrow> startup ip port (resolveRegistration i c)"
| startup_rejected: "startup ip port c \<Longrightarrow> exitCode c = None \<Longrightarrow> i < length (registrations c) \<Longrightarrow>
     reg_state (registrations c ! i) = Pending \<Longrightarrow> startup ip port (rejectRegistration i c)"

subsection \<open>Values used in the examples\<close>

text \<open>
  A session from the loopback address, two streams of it, and the registry after the
  session handler ran and the first stream completed the handshake declaring
  \<open>localhost\<close>, port 9001.
\<close>

definition loopback_session :: h2session where
  "loopback_session =
     \<lparr>session_id = ''undefined'', session_sessionId = ''undefined'', remoteAddress = Some ''127.0.0.1''\<rparr>"

definition first_stream :: mesh_stream where
  "first_stream = \<lparr>stream_id = 1, stream_session = loopback_session\<rparr>"

definition second_stream :: mesh_stream where
  "second_stream = \<lparr>stream_id = 3, stream_session = loopback_session\<rparr>"

definition linked_mesh :: mesh where
  "linked_mesh =
     final_state (meshStreamHandler first_stream (Some ''localhost'') (Some ''9001'')
       (meshSessionHandler loopback_session (initial_mesh 8080)))"

text \<open>A stream whose transport origin is 10.0.0.9.\<close>

definition spoofing_stream :: mesh_stream where
  "spoofing_stream =
     \<lparr>stream_id = 1, stream_session =
        \<lparr>session_id = ''undefined'', session_sessionId = ''undefined'', remoteAddress = Some ''10.0.0.9''\<rparr>\<rparr>"

section \<open>Properties of the frame codec\<close>

subsection \<open>Decoding\<close>

lemma decode_short_length:
  "unat (b1 AND 0x7F) < 126 \<Longrightarrow> b1 AND 0x80 = 0 \<Longrightarrow>
   fragmentInterpreter plat (b0 # b1 # rest) =
     Inr (Some \<lparr>isFinal = unat (b0 AND 0x80), rsv1 = unat (b0 AND 0x40), rsv2 = unat (b0 AND 0x20),
                rsv3 = unat (b0 AND 0x10), opcode = unat (b0 AND 0x0F),
                payloadLength = Num (unat (b1 AND 0x7F)),
                maskingKey = None, usesMasking = False, payload = rest\<rparr>)"
  by (simp add: fragmentInterpreter_def decodeLength_def byteAnd_def slice_def)

lemma decode_marker_126:
  "fragmentInterpreter plat (b0 # 126 # b2 # rest) =
     Inr (Some \<lparr>isFinal = unat (b0 AND 0x80), rsv1 = unat (b0 AND 0x40), rsv2 = unat (b0 AND 0x20),
                rsv3 = unat (b0 AND 0x10), opcode = unat (b0 AND 0x0F),
                payloadLength = Num (unat b2),
                maskingKey = None, usesMasking = False, payload = drop 1 rest\<rparr>)"
  by (simp add: fragmentInterpreter_def decodeLength_def byteAnd_def slice_def drop_Cons')

text \<open>
  C2. The claim: when the 7-bit length field is 126 the decoded \<open>payloadLength\<close> is the
  next two bytes read as a big-endian 16-bit integer (and the next eight bytes as a
  big-endian 64-bit integer when the field is 127). The decoder at the chunk
  \<open>82 7E 01 00\<close>: the field is 126, the next two bytes are \<open>01 00\<close>, which is 256 in
  big-endian order, and the decoded \<open>payloadLength\<close> is 1, the byte at index 2 alone.
\<close>

theorem fragmentInterpreter_length_126:
  "fragmentInterpreter plat [0x82, 0x7E, 0x01, 0x00] =
     Inr (Some \<lparr>isFinal = 128, rsv1 = 0, rsv2 = 0, rsv3 = 0, opcode = 2,
                payloadLength = Num 1,
                maskingKey = None, usesMasking = False, payload = []\<rparr>)
   \<and> byteAnd [0x82, 0x7E, 0x01, 0x00] 1 0x7F = 126
   \<and> be_uint (slice 2 4 [0x82, 0x7E, 0x01, 0x00]) = 256"
  by (simp add: decode_marker_126 byteAnd_def be_uint_def slice_def)

text \<open>
  The 64-bit case on a little-endian machine: the eight bytes \<open>00 00 00 00 00 00 01 00\<close>
  are 256 in big-endian order and decode to \<open>2 ^ 48\<close>.
\<close>

lemma fragmentInterpreter_length_127_little_endian:
  "fragmentInterpreter LittleEndian [0x82, 0x7F, 0, 0, 0, 0, 0, 0, 1, 0] =
     Inr (Some \<lparr>isFinal = 128, rsv1 = 0, rsv2 = 0, rsv3 = 0, opcode = 2,
                payloadLength = BigInt 281474976710656,
                maskingKey = None, usesMasking = False, payload = []\<rparr>)
   \<and> be_uint (slice 2 10 [0x82, 0x7F, 0, 0, 0, 0, 0, 0, 1, 0]) = 256"
  by (simp add: fragmentInterpreter_def decodeLength_def byteAnd_def slice_def be_uint_def)

subsection \<open>Encoding, and decoding what was encoded\<close>

lemma small_byte_mask:
  assumes "n < 126"
  shows "(of_nat n :: byte) AND mask 7 = of_nat n"
proof -
  have "(of_nat n :: byte) < 2 ^ 7"
    using assms by (simp add: word_less_nat_alt unat_of_nat)
  then show ?thesis by (rule less_mask_eq)
qed

lemma small_byte_length_field:
  assumes "n < 126"
  shows "unat ((of_nat n :: byte) AND 0x7F) = n"
proof -
  have "(0x7F::byte) = mask 7" by (simp add: mask_eq_exp_minus_1)
  then have "(of_nat n :: byte) AND 0x7F = of_nat n"
    using small_byte_mask [OF assms] by (simp only:)
  then show ?thesis using assms by (simp only: unat_of_nat) simp
qed

lemma small_byte_mask_bit:
  assumes "n < 126"
  shows "(of_nat n :: byte) AND 0x80 = 0"
proof -
  have z: "mask 7 AND (0x80::byte) = 0" by (simp add: mask_eq_exp_minus_1)
  have "(of_nat n :: byte) AND 0x80 = ((of_nat n :: byte) AND mask 7) AND 0x80"
    by (simp only: small_byte_mask [OF assms])
  also have "\<dots> = (of_nat n :: byte) AND (mask 7 AND 0x80)"
    by (simp only: and.assoc)
  also have "\<dots> = 0" by (simp only: z and_zero_eq)
  finally show ?thesis .
qed

lemma first_byte_bits:
  "opc = TEXT \<or> opc = BINARY \<Longrightarrow>
   unat ((of_nat (FINAL OR opc) :: byte) AND 0x0F) = opc \<and>
   unat ((of_nat (FINAL OR opc) :: byte) AND 0x80) = 128 \<and>
   unat ((of_nat (FINAL OR opc) :: byte) AND 0x40) = 0 \<and>
   unat ((of_nat (FINAL OR opc) :: byte) AND 0x20) = 0 \<and>
   unat ((of_nat (FINAL OR opc) :: byte) AND 0x10) = 0"
  by (auto simp: TEXT_def BINARY_def FINAL_def)

lemma sendFrame_short:
  "length pl < 126 \<Longrightarrow> opc = TEXT \<or> opc = BINARY \<Longrightarrow>
   sendFrame opc pl c = Returned (stream_write (of_nat (FINAL OR opc) # of_nat (length pl) # pl) c)"
  by (auto simp add: sendFrame_def payloadLengthBytes_def TEXT_def BINARY_def CLOSE_def PING_def PONG_def)

lemma sendFrame_medium:
  "126 \<le> length pl \<Longrightarrow> length pl < 65536 \<Longrightarrow> opc = TEXT \<or> opc = BINARY \<Longrightarrow>
   sendFrame opc pl c =
     Returned (stream_write (of_nat (FINAL OR opc) # 126 # of_nat (length pl) # pl) c)"
  by (auto simp add: sendFrame_def payloadLengthBytes_def TEXT_def BINARY_def CLOSE_def PING_def PONG_def)

lemma sendFrame_long:
  "65536 \<le> length pl \<Longrightarrow> opc = TEXT \<or> opc = BINARY \<Longrightarrow> sendFrame opc pl c = Threw TypeError c"
  by (auto simp add: sendFrame_def payloadLengthBytes_def TEXT_def BINARY_def CLOSE_def PING_def PONG_def)

text \<open>
  Payloads shorter than 126 bytes (the lengths 0, 1 and 125 of the claim among them) are
  written with the 7-bit length field and decode to the frame that was sent.
\<close>

lemma roundtrip_short:
  assumes "length pl < 126" and "opc = TEXT \<or> opc = BINARY"
  shows "fragmentInterpreter plat (of_nat (FINAL OR opc) # of_nat (length pl) # pl) =
     Inr (Some \<lparr>isFinal = 128, rsv1 = 0, rsv2 = 0, rsv3 = 0, opcode = opc,
                payloadLength = Num (length pl),
                maskingKey = None, usesMasking = False, payload = pl\<rparr>)"
  using first_byte_bits [OF assms(2)] assms(1)
  by (simp add: decode_short_length small_byte_length_field [OF assms(1)]
        small_byte_mask_bit [OF assms(1)])

lemma replicate_126: "replicate 126 x = x # replicate 125 x"
  using replicate_Suc [of 125 x] by simp

text \<open>
  C1. The claim: for a Text or Binary frame whose payload has 0, 1, 125, 126, 127, 65535
  or 65536 bytes, decoding the encoder's bytes gives the frame back, and the encoder uses
  the 16-bit length field exactly for lengths from 126 to 65535. The encoder at a Binary
  frame of 126 bytes \<open>61\<close>: after the marker 126 it writes one length byte, not two, and
  the decoder, which skips two, returns a payload of 125 bytes.
\<close>

theorem sendFrame_roundtrip_126:
  "sendFrame BINARY (replicate 126 0x61) c =
     Returned (stream_write ([0x82, 0x7E, 0x7E] @ replicate 126 0x61) c)
   \<and> fragmentInterpreter plat ([0x82, 0x7E, 0x7E] @ replicate 126 0x61) =
     Inr (Some \<lparr>isFinal = 128, rsv1 = 0, rsv2 = 0, rsv3 = 0, opcode = 2,
                payloadLength = Num 126,
                maskingKey = None, usesMasking = False, payload = replicate 125 0x61\<rparr>)"
  by (simp add: sendFrame_medium decode_marker_126 FINAL_def BINARY_def replicate_126)

text \<open>
  At 65535 bytes the length byte written is 255 and the decoded length is 255; at 65536
  bytes the encoder throws and writes nothing.
\<close>

lemma sendFrame_roundtrip_65535:
  "sendFrame TEXT (replicate 65535 0x61) c =
     Returned (stream_write ([0x81, 0x7E, 0xFF] @ replicate 65535 0x61) c)
   \<and> map_sum id (map_option payloadLength)
        (fragmentInterpreter plat ([0x81, 0x7E, 0xFF] @ replicate 65535 0x61)) = Inr (Some (Num 255))"
  by (simp add: sendFrame_medium decode_marker_126 FINAL_def TEXT_def stream_write_def)

lemma sendFrame_65536_throws:
  "sendFrame TEXT (replicate 65536 0x61) c = Threw TypeError c"
  by (simp add: sendFrame_long)

section \<open>Properties of the channel\<close>

text \<open>
  C8. The claim: the decoder returns no frame for an empty chunk, and the data path fed
  an empty chunk emits nothing, raises nothing and leaves the accumulator as it was. The
  decoder does return no frame; the data listener pushes that \<open>undefined\<close> onto the
  accumulator, and the parser throws a TypeError reading \<open>isFinal\<close> of it.
\<close>

theorem dataListener_empty_chunk:
  "fragmentInterpreter plat [] = Inr None
   \<and> dataListener plat [] c =
       Threw TypeError (c\<lparr>currentFrameFragments := currentFrameFragments c @ [None]\<rparr>)"
  by (simp add: fragmentInterpreter_def dataListener_def parseFrame_def)

text \<open>
  A Binary message in two fragments, the second masked with the key \<open>01 02 03 04\<close>: the
  first chunk is accumulated, the second completes the message, which is emitted once
  with the unmasked payloads concatenated, and the accumulator is cleared.
\<close>

lemma fragmented_message:
  "dataListener plat [0x02, 0x01, 0x41]
     \<lparr>currentFrameFragments = [], written = [], streamEnds = 0, emitted = [], logger = Some []\<rparr> =
   Returned \<lparr>currentFrameFragments =
       [Some \<lparr>isFinal = 0, rsv1 = 0, rsv2 = 0, rsv3 = 0, opcode = 2, payloadLength = Num 1,
              maskingKey = None, usesMasking = False, payload = [0x41]\<rparr>],
     written = [], streamEnds = 0, emitted = [], logger = Some []\<rparr>
   \<and> dataListener plat [0x80, 0x81, 0x01, 0x02, 0x03, 0x04, 0x43]
     \<lparr>currentFrameFragments =
       [Some \<lparr>isFinal = 0, rsv1 = 0, rsv2 = 0, rsv3 = 0, opcode = 2, payloadLength = Num 1,
              maskingKey = None, usesMasking = False, payload = [0x41]\<rparr>],
     written = [], streamEnds = 0, emitted = [], logger = Some []\<rparr> =
   Returned \<lparr>currentFrameFragments = [], written = [], streamEnds = 0,
     emitted = [FrameEvent 2 BinaryFrame [0x41, 0x42]], logger = Some [''Frame received'']\<rparr>"
  by (simp add: dataListener_def fragmentInterpreter_def decodeLength_def byteAnd_def slice_def
        parseFrame_def completeFrame_def fragmentPayload_def unmask_def keyAt_def frameType_def
        log_line_def emit_def TEXT_def BINARY_def upt_rec)

text \<open>A Pong fragment is surfaced as an event and removed from the accumulator.\<close>

lemma pong_received:
  "dataListener plat [0x8A, 0x00]
     \<lparr>currentFrameFragments = [], written = [], streamEnds = 0, emitted = [], logger = Some []\<rparr> =
   Returned \<lparr>currentFrameFragments = [], written = [], streamEnds = 0,
     emitted = [PongEvent []], logger = Some [''Pong received.'']\<rparr>"
  by (simp add: dataListener_def fragmentInterpreter_def decodeLength_def byteAnd_def slice_def
        parseFrame_def controlAction_def log_line_def emit_def CLOSE_def PING_def PONG_def)

text \<open>Every control frame the channel tries to send throws before anything is written.\<close>

lemma sendFrame_control_throws:
  "opc = CLOSE \<or> opc = PING \<or> opc = PONG \<Longrightarrow> sendFrame opc pl c = Threw TypeError c"
  by (auto simp add: sendFrame_def sendControl_def WsH2Stream_OPCODES_def)

text \<open>
  C4. The claim: a final Ping fragment pushed while earlier fragments of a message are
  accumulated makes the channel send one Pong frame and remove the Ping fragment, the
  earlier fragments staying and no frame event being emitted. The data listener at the
  chunk \<open>89 00\<close>, in any state: the Pong is never written, because building its first
  byte throws a TypeError, and the Ping fragment stays at the end of the accumulator.
\<close>

theorem dataListener_ping_throws:
  "dataListener plat [0x89, 0x00] c =
     Threw TypeError
       (c\<lparr>currentFrameFragments := currentFrameFragments c @
             [Some \<lparr>isFinal = 128, rsv1 = 0, rsv2 = 0, rsv3 = 0, opcode = 9, payloadLength = Num 0,
                    maskingKey = None, usesMasking = False, payload = []\<rparr>],
          logger := map_option (\<lambda>ls. ls @ [''Ping received.'']) (logger c)\<rparr>)"
  by (cases "logger c")
     (simp_all add: decode_short_length dataListener_def parseFrame_def controlAction_def
        PING_def CLOSE_def pong_def sendFrame_control_throws PONG_def log_line_def)

subsection \<open>Subprotocol negotiation\<close>




text \<open>
  Every header value is the comma-separated list of its fields, and no field contains a
  comma.
\<close>

lemma split_on_not_Nil: "split_on sep h \<noteq> []"
  by (induction h) (auto split: list.splits)

lemma split_on_fields: "\<forall>r\<in>set (split_on sep h). sep \<notin> set r"
  by (induction h) (auto split: list.splits)

lemma join_Cons: "ws \<noteq> [] \<Longrightarrow> join sep (w # ws) = w @ sep @ join sep ws"
  by (cases ws) auto

lemma join_split_on: "join [sep] (split_on sep h) = h"
proof (induction h)
  case Nil
  then show ?case by simp
next
  case (Cons x h)
  show ?case
  proof (cases "x = sep")
    case True
    then show ?thesis using Cons by (simp add: join_Cons split_on_not_Nil)
  next
    case False
    obtain w ws where e: "split_on sep h = w # ws"
      using split_on_not_Nil [of sep h] by (cases "split_on sep h") auto
    show ?thesis
      using False Cons e by (cases ws) auto
  qed
qed




section \<open>Properties of H2Stream\<close>

text \<open>
  With a logger, a call of \<open>respond\<close> after the headers were sent logs one line and
  changes nothing else: no call on the stream, the same \<open>sentHeaders\<close>.
\<close>

lemma respond_again_with_logger:
  "sentHeaders s = Some h \<Longrightarrow> errorProtocol s = ''logger'' \<Longrightarrow> h2logger s = Some ls \<Longrightarrow>
   respond h' ro s = Returned (s\<lparr>h2logger := Some (ls @ [''Headers already sent.''])\<rparr>)"
  by (simp add: respond_def)

text \<open>
  C10. The claim: with the default \<open>errorProtocol\<close>, a second call of \<open>respond\<close> does not
  throw, writes nothing more and keeps the first call's \<open>sentHeaders\<close>. On a stream
  constructed without a logger in its options, the first call sends the headers and the
  second throws a TypeError at \<open>this.#logger.error\<close>; nothing more is written and
  \<open>sentHeaders\<close> keeps the first headers.
\<close>

theorem respond_again_without_logger:
  "respond [('':status'', ''200'')] None (new_H2Stream None) =
     Returned \<lparr>sentHeaders = Some [('':status'', ''200'')], closed = False, errorProtocol = ''logger'',
               h2logger = None, streamCalls = [Respond [('':status'', ''200'')] False]\<rparr>
   \<and> respond [('':status'', ''404'')] None
       \<lparr>sentHeaders = Some [('':status'', ''200'')], closed = False, errorProtocol = ''logger'',
        h2logger = None, streamCalls = [Respond [('':status'', ''200'')] False]\<rparr> =
     Threw TypeError
       \<lparr>sentHeaders = Some [('':status'', ''200'')], closed = False, errorProtocol = ''logger'',
        h2logger = None, streamCalls = [Respond [('':status'', ''200'')] False]\<rparr>"
  by (simp add: respond_def new_H2Stream_def)

section \<open>Properties of the mesh\<close>

subsection \<open>The constructor\<close>

lemma decimal_8080: "decimal 8080 = ''8080''"
  by (simp add: decimal.simps)

lemma new_Mesh_examples:
  "new_Mesh \<lparr>config_registerServerFn = True, config_getOtherMeshServesFn = True,
             config_port = Some 8080, config_ip = Some ''10.0.0.1''\<rparr> = Inr (initial_mesh 8080)"
  "new_Mesh \<lparr>config_registerServerFn = True, config_getOtherMeshServesFn = True,
             config_port = Some 0, config_ip = Some ''localhost''\<rparr> = Inr (initial_mesh 8080)"
  "new_Mesh \<lparr>config_registerServerFn = True, config_getOtherMeshServesFn = True,
             config_port = Some 8080, config_ip = Some ''8.8.8.8''\<rparr> =
     Inl (Error ''Port and ip are required and ip must be a local sub network. DO NOT RUN THIS ON A PUBLIC NETWORK!!!'')"
  "new_Mesh \<lparr>config_registerServerFn = False, config_getOtherMeshServesFn = True,
             config_port = Some 8080, config_ip = Some ''10.0.0.1''\<rparr> =
     Inl (Error ''registerServerFn is required'')"
  by (simp_all add: new_Mesh_def startsWith_def)

subsection \<open>Inbound handshakes\<close>

lemma linked_mesh_fields:
  "byIPAndPort linked_mesh = [''localhost:9001'' \<mapsto> first_stream]"
  "bySession linked_mesh =
     [''undefined'' \<mapsto> \<lparr>sr_session = loopback_session, streams = [1 \<mapsto> first_stream]\<rparr>]"
  "responses linked_mesh = [(first_stream, \<lparr>mesh_status = 200, mesh_endStream = False\<rparr>)]"
  "processed linked_mesh = [(first_stream, ''localhost:9001'', False)]"
  by (simp_all add: linked_mesh_def meshStreamHandler_def meshSessionHandler_def initial_mesh_def
       invalidRemoteIp_def localhostVariants_def loopback_session_def first_stream_def
       stream_respond_def processMeshStreamData_def Let_def)





text \<open>
  C6, as stated, fails: a handshake with both headers, declaring \<open>localhost\<close> from the
  origin 127.0.0.1, is answered 404 and ended when \<open>localhost:9001\<close> is already linked.
\<close>

theorem loopback_handshake_refused_when_linked:
  "''localhost'' \<in> set localhostVariants
   \<and> remoteAddress (stream_session second_stream) = Some ''127.0.0.1''
   \<and> ''127.0.0.1'' \<in> set localhostVariants
   \<and> map snd (responses (final_state
        (meshStreamHandler second_stream (Some ''localhost'') (Some ''9001'') linked_mesh))) =
       [\<lparr>mesh_status = 200, mesh_endStream = False\<rparr>, \<lparr>mesh_status = 404, mesh_endStream = True\<rparr>]
   \<and> byIPAndPort (final_state
        (meshStreamHandler second_stream (Some ''localhost'') (Some ''9001'') linked_mesh)) =
       [''localhost:9001'' \<mapsto> first_stream]"
  by (simp add: linked_mesh_fields meshStreamHandler_def invalidRemoteIp_def localhostVariants_def
        second_stream_def loopback_session_def stream_respond_def Let_def)

text \<open>
  C6, amended. For a handshake with both headers: if the declared ip and the observed
  origin are both loopback variants, no link is recorded yet for the declared ip and
  port, and the session index has a record for the stream's session, the handshake is
  accepted: status 200 without ending the stream, the stream recorded in both indexes and
  its listeners attached. If the declared ip and the observed origin are two different
  values, not both loopback variants, the handshake is refused with status 400, the
  stream is ended and neither index changes.
\<close>

theorem handshake_identity_check:
  "(ip \<in> set localhostVariants \<and> remoteAddress (stream_session stream) = Some origin
      \<and> origin \<in> set localhostVariants \<and> byIPAndPort s (ip @ '':'' @ port) = None
      \<and> bySession s (session_sessionId (stream_session stream)) = Some r
    \<longrightarrow> thrown (meshStreamHandler stream (Some ip) (Some port) s) = None
      \<and> responses (final_state (meshStreamHandler stream (Some ip) (Some port) s)) =
          responses s @ [(stream, \<lparr>mesh_status = 200, mesh_endStream = False\<rparr>)]
      \<and> byIPAndPort (final_state (meshStreamHandler stream (Some ip) (Some port) s)) =
          (byIPAndPort s)(ip @ '':'' @ port \<mapsto> stream)
      \<and> bySession (final_state (meshStreamHandler stream (Some ip) (Some port) s)) =
          (bySession s)(session_sessionId (stream_session stream) \<mapsto>
             r\<lparr>streams := (streams r)(stream_id stream \<mapsto> stream)\<rparr>)
      \<and> processed (final_state (meshStreamHandler stream (Some ip) (Some port) s)) =
          processed s @ [(stream, ip @ '':'' @ port, False)])
   \<and> (remoteAddress (stream_session stream) = Some origin \<and> ip \<noteq> origin
      \<and> \<not> (ip \<in> set localhostVariants \<and> origin \<in> set localhostVariants)
    \<longrightarrow> meshStreamHandler stream (Some ip) (Some port) s = Returned (stream_respond stream 400 True s)
      \<and> byIPAndPort (stream_respond stream 400 True s) = byIPAndPort s
      \<and> bySession (stream_respond stream 400 True s) = bySession s)"
  by (auto simp add: meshStreamHandler_def invalidRemoteIp_def stream_respond_def
        processMeshStreamData_def Let_def)

theorem handshake_identity_check_witness:
  "thrown (meshStreamHandler first_stream (Some ''localhost'') (Some ''9001'')
            (meshSessionHandler loopback_session (initial_mesh 8080))) = None
   \<and> byIPAndPort (final_state (meshStreamHandler first_stream (Some ''localhost'') (Some ''9001'')
            (meshSessionHandler loopback_session (initial_mesh 8080)))) ''localhost:9001''
       = Some first_stream
   \<and> map snd (responses (final_state (meshStreamHandler first_stream (Some ''localhost'') (Some ''9001'')
            (meshSessionHandler loopback_session (initial_mesh 8080))))) =
       [\<lparr>mesh_status = 200, mesh_endStream = False\<rparr>]
   \<and> meshStreamHandler spoofing_stream (Some ''10.0.0.5'') (Some ''9001'') (initial_mesh 8080) =
       Returned (stream_respond spoofing_stream 400 True (initial_mesh 8080))"
  using handshake_identity_check [of "''localhost''" first_stream "''127.0.0.1''"
          "meshSessionHandler loopback_session (initial_mesh 8080)" "''9001''"
          "\<lparr>sr_session = loopback_session, streams = Map.empty\<rparr>"]
        handshake_identity_check [of "''10.0.0.5''" spoofing_stream "''10.0.0.9''"
          "initial_mesh 8080" "''9001''"]
  by (simp add: localhostVariants_def first_stream_def loopback_session_def spoofing_stream_def
        meshSessionHandler_def initial_mesh_def)

subsection \<open>Outbound connections\<close>

text \<open>
  A server whose connection attempt throws gets no request and is unregistered; the loop
  goes on with the next server.
\<close>

lemma connect_failure_unregisters:
  "connectToMeshServers (\<lambda>server. if server = ''bad'' then Some TypeError else None) (\<lambda>server. None)
     [''bad'', ''10.0.0.2:9001''] (initial_mesh 8080) =
   Returned ((initial_mesh 8080)
     \<lparr>requests := [(''10.0.0.2:9001'',
         [(''mesh-ip'', ''localhost''), (''mesh-port'', ''8080''), ('':method'', ''POST'')])],
      unregisterCalls := [''bad'']\<rparr>)"
  by (simp add: connectToMeshServers_def initial_mesh_def decimal_8080)

lemma outbound_registry_unchanged:
  "byIPAndPort (outboundResponseListener out k s) = byIPAndPort s \<and>
   bySession (outboundResponseListener out k s) = bySession s"
  by (simp add: outboundResponseListener_def processMeshStreamData_def Let_def)

text \<open>
  C5. The claim: when the remote answers an outbound attempt with success, the manager
  records a link for that identity in its registry, attaches the relay listeners and
  sends \<open>ping\<close>. A process on port 8080 whose directory lists \<open>10.0.0.2:9001\<close> and
  itself, and whose connection attempts do not throw, opens one request, to
  \<open>10.0.0.2:9001\<close>; when the response arrives the listeners are attached and \<open>ping\<close> is
  written, and both indexes of the registry are still empty.
\<close>

theorem outbound_link_not_recorded:
  "requests (final_state (connectToMeshServers (\<lambda>server. None) (\<lambda>server. None)
        [''10.0.0.2:9001'', ''localhost:8080''] (initial_mesh 8080))) =
     [(''10.0.0.2:9001'',
       [(''mesh-ip'', ''localhost''), (''mesh-port'', ''8080''), ('':method'', ''POST'')])]
   \<and> byIPAndPort (outboundResponseListener out ''10.0.0.2:9001''
        (final_state (connectToMeshServers (\<lambda>server. None) (\<lambda>server. None)
           [''10.0.0.2:9001'', ''localhost:8080''] (initial_mesh 8080))))
        ''10.0.0.2:9001'' = None
   \<and> bySession (outboundResponseListener out ''10.0.0.2:9001''
        (final_state (connectToMeshServers (\<lambda>server. None) (\<lambda>server. None)
           [''10.0.0.2:9001'', ''localhost:8080''] (initial_mesh 8080)))) = Map.empty
   \<and> stream_writes (outboundResponseListener out ''10.0.0.2:9001''
        (final_state (connectToMeshServers (\<lambda>server. None) (\<lambda>server. None)
           [''10.0.0.2:9001'', ''localhost:8080''] (initial_mesh 8080)))) =
       [(out, ''ping'')]
   \<and> processed (outboundResponseListener out ''10.0.0.2:9001''
        (final_state (connectToMeshServers (\<lambda>server. None) (\<lambda>server. None)
           [''10.0.0.2:9001'', ''localhost:8080''] (initial_mesh 8080)))) =
       [(out, ''10.0.0.2:9001'', True)]"
  by (simp add: connectToMeshServers_def initial_mesh_def outboundResponseListener_def
        processMeshStreamData_def Let_def decimal_8080)

subsection \<open>Start-up\<close>

lemma startup_invariant:
  "startup ip port c \<Longrightarrow>
     (registrations c = [] \<and> \<not> bound c
        \<or> (\<exists>st. registrations c =
                 [\<lparr>reg_ip = ip, reg_port = port, reg_state = st, reg_catch = Some 1\<rparr>]
               \<and> (st = Rejected \<longrightarrow> exitCode c = Some 1)
               \<and> (exitCode c \<noteq> None \<longrightarrow> st = Rejected))
          \<and> bound c)
     \<and> (bound c \<longrightarrow> listenCalled c) \<and> listeningAttached c = listenCalled c"
  by (induction rule: startup.induct)
     (auto simp: coordinator_init_def startMeshServer_def emitListening_def meshListeningHandler_def
        resolveRegistration_def rejectRegistration_def Let_def)

lemma startup_listening:
  "startup ip port (emitListening ip port (startMeshServer coordinator_init))"
  by (rule startup_bound [OF startup_start [OF startup_init]])
     (simp_all add: coordinator_init_def startMeshServer_def)

lemma startup_failed:
  "startup ip port (rejectRegistration 0 (emitListening ip port (startMeshServer coordinator_init)))"
  by (rule startup_rejected [OF startup_listening])
     (simp_all add: coordinator_init_def startMeshServer_def emitListening_def meshListeningHandler_def)

text \<open>
  C7. In every state of a start-up execution:
  \<^item> if the registration function was called, the listener is bound (and \<open>listen\<close> had
    been called);
  \<^item> once the listener is bound the registration function has been called, once, with
    this node's address, and the callback that exits with code 1 is attached to its
    promise;
  \<^item> if the first registration has failed, the process has exited with code 1;
  \<^item> while the first registration is pending the process has not exited, and the
    failure of that registration is a step of the execution, after which the
    registration has failed and the process has exited with code 1.
\<close>

theorem registration_only_when_listening:
  assumes "startup ip port c"
  shows "(registrations c \<noteq> [] \<longrightarrow> bound c \<and> listenCalled c)
         \<and> (bound c \<longrightarrow> (\<exists>st. registrations c =
               [\<lparr>reg_ip = ip, reg_port = port, reg_state = st, reg_catch = Some 1\<rparr>]))
         \<and> (registrations c \<noteq> [] \<and> reg_state (hd (registrations c)) = Rejected \<longrightarrow>
              exitCode c = Some 1)
         \<and> (registrations c \<noteq> [] \<and> reg_state (hd (registrations c)) = Pending \<longrightarrow>
              exitCode c = None \<and> startup ip port (rejectRegistration 0 c)
              \<and> reg_state (hd (registrations (rejectRegistration 0 c))) = Rejected
              \<and> exitCode (rejectRegistration 0 c) = Some 1)"
  using startup_invariant [OF assms] startup_rejected [OF assms, of 0]
  by (auto simp: rejectRegistration_def Let_def)

theorem registration_only_when_listening_witness:
  "startup ''localhost'' 8080 (emitListening ''localhost'' 8080 (startMeshServer coordinator_init))
   \<and> registrations (emitListening ''localhost'' 8080 (startMeshServer coordinator_init)) =
       [\<lparr>reg_ip = ''localhost'', reg_port = 8080, reg_state = Pending, reg_catch = Some 1\<rparr>]
   \<and> bound (emitListening ''localhost'' 8080 (startMeshServer coordinator_init))
   \<and> startup ''localhost'' 8080
        (rejectRegistration 0 (emitListening ''localhost'' 8080 (startMeshServer coordinator_init)))
   \<and> reg_state (hd (registrations
        (rejectRegistration 0 (emitListening ''localhost'' 8080 (startMeshServer coordinator_init)))))
       = Rejected
   \<and> exitCode
        (rejectRegistration 0 (emitListening ''localhost'' 8080 (startMeshServer coordinator_init)))
       = Some 1"
  using registration_only_when_listening [OF startup_listening, of "''localhost''" 8080]
    registration_only_when_listening [OF startup_failed, of "''localhost''" 8080]
    startup_listening [of "''localhost''" 8080]
  by (simp add: coordinator_init_def startMeshServer_def emitListening_def meshListeningHandler_def
        rejectRegistration_def Let_def)

end
